theory Spec2Isabelle
  imports Main
begin

section \<open>Values exchanged with the libraries\<close>

text \<open>
  The package \<open>operator\<close> (file \<open>operator.go\<close>) drives the SSH client library, the SSH
  agent client, the file system and the terminal. Its own code is the decision logic
  between those calls, so the model below makes every library call an entry of an
  environment record \<open>env\<close> (what the call answers) and an entry of an event log (that
  the call happened, in order). A function of the package returns the log of what it did
  together with its Go result.
\<close>

type_synonym bytes = "char list"

text \<open>
  A Go \<open>error\<close> value. \<open>errors.Wrapf\<close> of \<open>github.com/pkg/errors\<close> puts a message in
  front of its cause; \<open>Error()\<close> prints \<open>message: cause\<close>. A nil error is \<open>None\<close> of
  \<open>error option\<close>.
\<close>

datatype error = ErrorString string | WithMessage error string

fun Error :: "error \<Rightarrow> string" where
  "Error (ErrorString s) = s"
| "Error (WithMessage cause msg) = msg @ '': '' @ Error cause"

fun Wrapf :: "error option \<Rightarrow> string \<Rightarrow> error option" where
  "Wrapf None msg = None"
| "Wrapf (Some err) msg = Some (WithMessage err msg)"

datatype conn = Conn nat

datatype signer = Signer bytes

datatype public_key = PublicKey bytes

fun Marshal :: "public_key \<Rightarrow> bytes" where
  "Marshal (PublicKey b) = b"

record agent_key =
  Format :: string
  Blob :: bytes
  Comment :: string

datatype signers_callback = AgentSigners conn

datatype auth_method =
    Password string
  | PublicKeys signer
  | PublicKeysCallback signers_callback

datatype host_key_callback = InsecureIgnoreHostKey | FixedHostKey bytes

record client_config =
  User :: string
  Auth :: "auth_method list"
  HostKeyCallback :: host_key_callback

datatype ssh_operator = SSHOperator nat

datatype command_operator = LocalOperator | RemoteOperator ssh_operator

text \<open>
  What a callback does with the \<open>CommandOperator\<close> it receives: calls of the three
  methods of the interface, then its result. The interface has no method that closes.
\<close>

datatype op_call =
    Execute string
  | Upload bytes string string
  | UploadFile string string string

type_synonym callback = "command_operator \<Rightarrow> op_call list \<times> error option"

section \<open>Environment and event log\<close>

record env =
  getenv :: "string \<Rightarrow> string"
  net_dial :: "string \<Rightarrow> string \<Rightarrow> error + conn"
  agent_list :: "conn \<Rightarrow> agent_key list \<times> error option"
  homedir_expand :: "string \<Rightarrow> string \<times> error option"
  read_file :: "string \<Rightarrow> error + bytes"
  parse_private_key :: "bytes \<Rightarrow> error + signer"
  parse_private_key_with_passphrase :: "bytes \<Rightarrow> bytes \<Rightarrow> error + signer"
  parse_authorized_key :: "bytes \<Rightarrow> error + public_key"
  stdin_fd :: int
  read_password :: "int \<Rightarrow> bytes \<times> error option"
  new_ssh_operator :: "string \<Rightarrow> client_config \<Rightarrow> error + ssh_operator"
  operator_close :: "ssh_operator \<Rightarrow> error option"
  conn_close :: "conn \<Rightarrow> error option"

datatype event =
    EvReadFile string
  | EvParsePrivateKey bytes
  | EvParsePrivateKeyWithPassphrase bytes bytes
  | EvParseAuthorizedKey bytes
  | EvNetDial string string "error + conn"
  | EvAgentList conn
  | EvConnClose conn
  | EvPrint string
  | EvReadPassword int
  | EvNewSSHOperator string client_config "error + ssh_operator"
  | EvCallback command_operator "op_call list"
  | EvOperatorClose ssh_operator

text \<open>Readers of a log: which connections it opened and closed, how often it prompted.\<close>

fun opened :: "event list \<Rightarrow> ssh_operator list" where
  "opened [] = []"
| "opened (EvNewSSHOperator a c (Inr operator) # t) = operator # opened t"
| "opened (e # t) = opened t"

fun closes :: "event list \<Rightarrow> ssh_operator list" where
  "closes [] = []"
| "closes (EvOperatorClose operator # t) = operator # closes t"
| "closes (e # t) = closes t"

fun ssh_dials :: "event list \<Rightarrow> (string \<times> client_config) list" where
  "ssh_dials [] = []"
| "ssh_dials (EvNewSSHOperator a c r # t) = (a, c) # ssh_dials t"
| "ssh_dials (e # t) = ssh_dials t"

fun agent_dials :: "event list \<Rightarrow> (error + conn) list" where
  "agent_dials [] = []"
| "agent_dials (EvNetDial n a r # t) = r # agent_dials t"
| "agent_dials (e # t) = agent_dials t"

fun agent_opened :: "event list \<Rightarrow> conn list" where
  "agent_opened [] = []"
| "agent_opened (EvNetDial n a (Inr c) # t) = c # agent_opened t"
| "agent_opened (e # t) = agent_opened t"

fun agent_closes :: "event list \<Rightarrow> conn list" where
  "agent_closes [] = []"
| "agent_closes (EvConnClose c # t) = c # agent_closes t"
| "agent_closes (e # t) = agent_closes t"

fun agent_lists :: "event list \<Rightarrow> conn list" where
  "agent_lists [] = []"
| "agent_lists (EvAgentList c # t) = c # agent_lists t"
| "agent_lists (e # t) = agent_lists t"

fun prompts :: "event list \<Rightarrow> int list" where
  "prompts [] = []"
| "prompts (EvReadPassword fd # t) = fd # prompts t"
| "prompts (e # t) = prompts t"

text \<open>The life of the main connection in a log: opening attempts, callback runs, closes.\<close>

fun lifecycle :: "event list \<Rightarrow> event list" where
  "lifecycle [] = []"
| "lifecycle (EvNewSSHOperator a c r # t) = EvNewSSHOperator a c r # lifecycle t"
| "lifecycle (EvCallback operator calls # t) = EvCallback operator calls # lifecycle t"
| "lifecycle (EvOperatorClose operator # t) = EvOperatorClose operator # lifecycle t"
| "lifecycle (e # t) = lifecycle t"

fun prints :: "event list \<Rightarrow> string list" where
  "prints [] = []"
| "prints (EvPrint s # t) = s # prints t"
| "prints (e # t) = prints t"

section \<open>Formatting\<close>

text \<open>
  \<open>fmt.Sprintf("%s:%d", host, port)\<close>: the port is a Go \<open>int\<close> printed in decimal,
  with a minus sign when negative. The package does no arithmetic on it, so it is an
  \<open>int\<close> here.
\<close>

definition digit :: "nat \<Rightarrow> char" where
  "digit d = char_of (48 + d)"

fun utoa :: "nat \<Rightarrow> string" where
  "utoa n = (if n < 10 then [digit n] else utoa (n div 10) @ [digit (n mod 10)])"

definition itoa :: "int \<Rightarrow> string" where
  "itoa i = (if i < 0 then CHR ''-'' # utoa (nat (- i)) else utoa (nat i))"

definition host_port :: "string \<Rightarrow> int \<Rightarrow> string" where
  "host_port host port = host @ '':'' @ itoa port"

section \<open>The package\<close>

definition expandPath :: "env \<Rightarrow> string \<Rightarrow> string" where
  "expandPath env path = fst (homedir_expand env path)"

text \<open>
  \<open>executeRemote\<close>: build the configuration, open the session, run the callback; the
  deferred \<open>operator.Close()\<close> runs after the callback and its result is dropped.
\<close>

definition executeRemote ::
  "env \<Rightarrow> string \<Rightarrow> int \<Rightarrow> string \<Rightarrow> auth_method \<Rightarrow> callback \<Rightarrow> event list \<times> error option" where
  "executeRemote env host port user authMethod callback =
     (let config = \<lparr>User = user, Auth = [authMethod], HostKeyCallback = InsecureIgnoreHostKey\<rparr>;
          address = host_port host port
      in case new_ssh_operator env address config of
           Inl err \<Rightarrow>
             ([EvNewSSHOperator address config (Inl err)],
              Wrapf (Some err) (''unable to connect to '' @ address @ '' over ssh''))
         | Inr operator \<Rightarrow>
             (let (calls, res) = callback (RemoteOperator operator);
                  dropped = operator_close env operator
              in ([EvNewSSHOperator address config (Inr operator),
                   EvCallback (RemoteOperator operator) calls,
                   EvOperatorClose operator], res)))"

definition ExecuteLocal :: "env \<Rightarrow> callback \<Rightarrow> event list \<times> error option" where
  "ExecuteLocal env callback =
     (let (calls, res) = callback LocalOperator in ([EvCallback LocalOperator calls], res))"

definition ExecuteRemoteWithPassword ::
  "env \<Rightarrow> string \<Rightarrow> int \<Rightarrow> string \<Rightarrow> string \<Rightarrow> callback \<Rightarrow> event list \<times> error option" where
  "ExecuteRemoteWithPassword env host port user password callback =
     executeRemote env host port user (Password password) callback"

text \<open>
  The second result of \<open>privateKeyUsingSSHAgent\<close> is a function value: either the
  \<open>Close\<close> method of the agent connection or a function that does nothing.
\<close>

datatype closer = ConnCloseFn conn | NopCloser

fun run_closer :: "env \<Rightarrow> closer \<Rightarrow> event list" where
  "run_closer env (ConnCloseFn c) = (let dropped = conn_close env c in [EvConnClose c])"
| "run_closer env NopCloser = []"

text \<open>The \<open>range\<close> loop over the agent's keys, which returns at the first equal blob.\<close>

fun blob_match :: "agent_key list \<Rightarrow> bytes \<Rightarrow> bool" where
  "blob_match [] parsedkey = False"
| "blob_match (key # keys) parsedkey =
     (if Blob key = parsedkey then True else blob_match keys parsedkey)"

definition privateKeyUsingSSHAgent ::
  "env \<Rightarrow> string \<Rightarrow> event list \<times> auth_method option \<times> closer" where
  "privateKeyUsingSSHAgent env publicKeyPath =
     (let sock = getenv env ''SSH_AUTH_SOCK''
      in case net_dial env ''unix'' sock of
           Inl err \<Rightarrow> ([EvNetDial ''unix'' sock (Inl err)], None, NopCloser)
         | Inr sshAgentConn \<Rightarrow>
             (let (keys, dropped) = agent_list env sshAgentConn;
                  t1 = [EvNetDial ''unix'' sock (Inr sshAgentConn), EvAgentList sshAgentConn]
              in if length keys = 0 then (t1, None, ConnCloseFn sshAgentConn)
                 else
                   (let path = expandPath env publicKeyPath
                    in case read_file env path of
                         Inl err \<Rightarrow> (t1 @ [EvReadFile path], None, ConnCloseFn sshAgentConn)
                       | Inr pubkey \<Rightarrow>
                           (let t2 = t1 @ [EvReadFile path, EvParseAuthorizedKey pubkey]
                            in case parse_authorized_key env pubkey of
                                 Inl err \<Rightarrow> (t2, None, ConnCloseFn sshAgentConn)
                               | Inr authkey \<Rightarrow>
                                   (let parsedkey = Marshal authkey
                                    in if blob_match keys parsedkey
                                       then (t2, Some (PublicKeysCallback (AgentSigners sshAgentConn)),
                                             ConnCloseFn sshAgentConn)
                                       else (t2, None, NopCloser))))))"

definition passphrase_protected :: string where
  "passphrase_protected = ''ssh: this private key is passphrase protected''"

definition passphrase_prompt :: "string \<Rightarrow> string" where
  "passphrase_prompt privateKey =
     ''Enter passphrase for '' @ [CHR 0x27] @ privateKey @ [CHR 0x27] @ '': ''"

text \<open>
  \<open>ExecuteRemoteWithPrivateKey\<close>. The deferred \<open>closeAgent()\<close> is registered right after
  the probe, so it runs on every return after that point, after everything else.
\<close>

definition ExecuteRemoteWithPrivateKey ::
  "env \<Rightarrow> string \<Rightarrow> int \<Rightarrow> string \<Rightarrow> string \<Rightarrow> callback \<Rightarrow> event list \<times> error option" where
  "ExecuteRemoteWithPrivateKey env host port user privateKey callback =
     (let path = expandPath env privateKey
      in case read_file env path of
           Inl err \<Rightarrow>
             ([EvReadFile path], Wrapf (Some err) (''unable to parse private key: '' @ privateKey))
         | Inr buffer \<Rightarrow>
             (let t0 = [EvReadFile path, EvParsePrivateKey buffer]
              in case parse_private_key env buffer of
                   Inr key \<Rightarrow>
                     (let (t, r) = executeRemote env host port user (PublicKeys key) callback
                      in (t0 @ t, r))
                 | Inl err \<Rightarrow>
                     if Error err \<noteq> passphrase_protected
                     then (t0, Wrapf (Some err) (''unable to parse private key: '' @ privateKey))
                     else
                       (let (tp, sshAgent, closeAgent) =
                              privateKeyUsingSSHAgent env (privateKey @ ''.pub'')
                        in case sshAgent of
                             Some method \<Rightarrow>
                               (let (t, r) = executeRemote env host port user method callback
                                in (t0 @ tp @ t @ run_closer env closeAgent, r))
                           | None \<Rightarrow>
                               (let STDIN = stdin_fd env;
                                    (bytePassword, dropped) = read_password env STDIN;
                                    tq = [EvPrint (passphrase_prompt privateKey),
                                          EvReadPassword STDIN,
                                          EvPrint [CHR 0x0A],
                                          EvParsePrivateKeyWithPassphrase buffer bytePassword]
                                in case parse_private_key_with_passphrase env buffer bytePassword of
                                     Inl err \<Rightarrow>
                                       (t0 @ tp @ tq @ run_closer env closeAgent,
                                        Wrapf (Some err)
                                          (''parse private key with passphrase failed: '' @ privateKey))
                                   | Inr key \<Rightarrow>
                                       (let (t, r) =
                                              executeRemote env host port user (PublicKeys key) callback
                                        in (t0 @ tp @ tq @ t @ run_closer env closeAgent, r))))))"

text \<open>
  \<open>ExecuteRemote\<close>: the agent is dialled first; its connection is closed by the first
  \<open>defer\<close>, which runs last.
\<close>

definition ExecuteRemote ::
  "env \<Rightarrow> string \<Rightarrow> int \<Rightarrow> string \<Rightarrow> callback \<Rightarrow> event list \<times> error option" where
  "ExecuteRemote env host port user callback =
     (let sock = getenv env ''SSH_AUTH_SOCK''
      in case net_dial env ''unix'' sock of
           Inl err \<Rightarrow>
             ([EvNetDial ''unix'' sock (Inl err)], Wrapf (Some err) ''unable to reach SSH Agent'')
         | Inr sshAgent \<Rightarrow>
             (let dial = EvNetDial ''unix'' sock (Inr sshAgent);
                  config = \<lparr>User = user,
                            Auth = [PublicKeysCallback (AgentSigners sshAgent)],
                            HostKeyCallback = InsecureIgnoreHostKey\<rparr>;
                  address = host_port host port
              in case new_ssh_operator env address config of
                   Inl err \<Rightarrow>
                     (let dropped = conn_close env sshAgent
                      in ([dial, EvNewSSHOperator address config (Inl err), EvConnClose sshAgent],
                          Wrapf (Some err) (''unable to connect to '' @ address @ '' over ssh'')))
                 | Inr operator \<Rightarrow>
                     (let (calls, res) = callback (RemoteOperator operator);
                          dropped = operator_close env operator;
                          dropped' = conn_close env sshAgent
                      in ([dial,
                           EvNewSSHOperator address config (Inr operator),
                           EvCallback (RemoteOperator operator) calls,
                           EvOperatorClose operator,
                           EvConnClose sshAgent], res))))"

section \<open>A concrete environment\<close>

text \<open>
  One environment to run the package on: an agent with two identities behind
  \<open>/tmp/agent.sock\<close>, the encrypted key \<open>id_rsa\<close> whose public half the agent holds, the
  encrypted key \<open>id_ed\<close> whose public half it does not, the plain key \<open>id_plain\<close>, the
  damaged key \<open>id_bad\<close>, and a server that accepts on port 22 only.
\<close>

definition demo_list :: "agent_key list" where
  "demo_list =
     [\<lparr>Format = ''ssh-rsa'', Blob = ''blobA'', Comment = ''a''\<rparr>,
      \<lparr>Format = ''ssh-rsa'', Blob = ''blobR'', Comment = ''r''\<rparr>]"

definition demo_env :: env where
  "demo_env =
     \<lparr>getenv = (\<lambda>v. if v = ''SSH_AUTH_SOCK'' then ''/tmp/agent.sock'' else []),
      net_dial = (\<lambda>n a. if n = ''unix'' \<and> a = ''/tmp/agent.sock'' then Inr (Conn 7)
                         else Inl (ErrorString ''dial: no such file'')),
      agent_list = (\<lambda>c. (demo_list, None)),
      homedir_expand = (\<lambda>p. (p, None)),
      read_file = (\<lambda>p. if p = ''id_rsa'' then Inr ''encR''
                        else if p = ''id_rsa.pub'' then Inr ''pubR''
                        else if p = ''id_ed'' then Inr ''encE''
                        else if p = ''id_ed.pub'' then Inr ''pubE''
                        else if p = ''id_plain'' then Inr ''plain''
                        else if p = ''id_bad'' then Inr ''junk''
                        else Inl (ErrorString ''open: no such file'')),
      parse_private_key = (\<lambda>b. if b = ''plain'' then Inr (Signer ''plain'')
                                else if b = ''encR'' \<or> b = ''encE''
                                then Inl (ErrorString ''ssh: this private key is passphrase protected'')
                                else Inl (ErrorString ''ssh: no key found'')),
      parse_private_key_with_passphrase =
        (\<lambda>b pw. if (b = ''encR'' \<or> b = ''encE'') \<and> pw = ''secret'' then Inr (Signer b)
                 else Inl (ErrorString ''x509: decryption password incorrect'')),
      parse_authorized_key = (\<lambda>b. if b = ''pubR'' then Inr (PublicKey ''blobR'')
                                   else if b = ''pubE'' then Inr (PublicKey ''blobE'')
                                   else Inl (ErrorString ''ssh: no key found'')),
      stdin_fd = 0,
      read_password = (\<lambda>fd. (''secret'', None)),
      new_ssh_operator = (\<lambda>a c. if a = ''h:22'' then Inr (SSHOperator 1)
                                 else Inl (ErrorString ''dial tcp: connection refused'')),
      operator_close = (\<lambda>operator. Some (ErrorString ''close failed'')),
      conn_close = (\<lambda>c. None)\<rparr>"

definition demo_ok :: callback where
  "demo_ok operator = ([UploadFile ''script.sh'' ''/tmp/script.123'' ''0755'', Execute ''/tmp/script.123''], None)"

definition demo_fail :: callback where
  "demo_fail operator = ([UploadFile ''script.sh'' ''/tmp/script.123'' ''0755''],
                         Some (ErrorString ''upload failed''))"

text \<open>
  Variations: no agent socket named in the process environment, a user who types the wrong
  passphrase, and a standard input that is not a terminal.
\<close>

definition unreachable_env :: env where
  "unreachable_env = demo_env\<lparr>getenv := (\<lambda>v. [])\<rparr>"

definition wrong_passphrase_env :: env where
  "wrong_passphrase_env = demo_env\<lparr>read_password := (\<lambda>fd. (''wrong'', None))\<rparr>"

definition no_terminal_env :: env where
  "no_terminal_env =
     demo_env\<lparr>read_password := (\<lambda>fd. ([], Some (ErrorString ''inappropriate ioctl for device'')))\<rparr>"

section \<open>Facts about logs and about the parts of the package\<close>

lemma opened_append: "opened (a @ b) = opened a @ opened b"
  by (induction a rule: opened.induct) simp_all
lemma closes_append: "closes (a @ b) = closes a @ closes b"
  by (induction a rule: closes.induct) simp_all
lemma ssh_dials_append: "ssh_dials (a @ b) = ssh_dials a @ ssh_dials b"
  by (induction a rule: ssh_dials.induct) simp_all
lemma agent_dials_append: "agent_dials (a @ b) = agent_dials a @ agent_dials b"
  by (induction a rule: agent_dials.induct) simp_all
lemma agent_opened_append: "agent_opened (a @ b) = agent_opened a @ agent_opened b"
  by (induction a rule: agent_opened.induct) simp_all
lemma agent_closes_append: "agent_closes (a @ b) = agent_closes a @ agent_closes b"
  by (induction a rule: agent_closes.induct) simp_all
lemma agent_lists_append: "agent_lists (a @ b) = agent_lists a @ agent_lists b"
  by (induction a rule: agent_lists.induct) simp_all
lemma prompts_append: "prompts (a @ b) = prompts a @ prompts b"
  by (induction a rule: prompts.induct) simp_all
lemma lifecycle_append: "lifecycle (a @ b) = lifecycle a @ lifecycle b"
  by (induction a rule: lifecycle.induct) simp_all

lemmas reader_append = opened_append closes_append ssh_dials_append agent_dials_append
  agent_opened_append agent_closes_append agent_lists_append prompts_append lifecycle_append

lemma executeRemote_result:
  assumes "executeRemote env host port user authMethod callback = (t, r)"
  shows "(\<exists>err. t = [EvNewSSHOperator (host_port host port)
                      \<lparr>User = user, Auth = [authMethod], HostKeyCallback = InsecureIgnoreHostKey\<rparr> (Inl err)]
               \<and> r = Some (WithMessage err (''unable to connect to '' @ host_port host port @ '' over ssh'')))
       \<or> (\<exists>operator. t = [EvNewSSHOperator (host_port host port)
                      \<lparr>User = user, Auth = [authMethod], HostKeyCallback = InsecureIgnoreHostKey\<rparr> (Inr operator),
                      EvCallback (RemoteOperator operator) (fst (callback (RemoteOperator operator))),
                      EvOperatorClose operator]
               \<and> r = snd (callback (RemoteOperator operator)))"
  using assms
  by (auto simp: executeRemote_def Let_def split: sum.splits prod.splits)

lemma run_closer_readers:
  "opened (run_closer env c) = []" "closes (run_closer env c) = []"
  "lifecycle (run_closer env c) = []" "prompts (run_closer env c) = []"
  "ssh_dials (run_closer env c) = []"
  by (cases c; simp)+

lemma probe_readers:
  assumes "privateKeyUsingSSHAgent env p = (t, m, c)"
  shows "opened t = []" "closes t = []" "lifecycle t = []" "prompts t = []" "ssh_dials t = []"
  using assms
  by (auto simp: privateKeyUsingSSHAgent_def Let_def split: sum.splits prod.splits if_splits)

lemma prints_append: "prints (a @ b) = prints a @ prints b"
  by (induction a rule: prints.induct) simp_all

lemma executeRemote_closed_once:
  assumes run: "executeRemote env host port user authMethod callback = (t, r)"
    and opn: "operator \<in> set (opened t)"
  shows "closes t = [operator] \<and> r = snd (callback (RemoteOperator operator)) \<and>
         (\<exists>a c. lifecycle t =
            [EvNewSSHOperator a c (Inr operator),
             EvCallback (RemoteOperator operator) (fst (callback (RemoteOperator operator))),
             EvOperatorClose operator])"
  using executeRemote_result [OF run] opn by auto

lemma ExecuteRemoteWithPrivateKey_closed_once:
  assumes run: "ExecuteRemoteWithPrivateKey env host port user privateKey callback = (t, r)"
    and opn: "operator \<in> set (opened t)"
  shows "closes t = [operator] \<and> r = snd (callback (RemoteOperator operator)) \<and>
         (\<exists>a c. lifecycle t =
            [EvNewSSHOperator a c (Inr operator),
             EvCallback (RemoteOperator operator) (fst (callback (RemoteOperator operator))),
             EvOperatorClose operator])"
  using run opn
  apply (simp add: ExecuteRemoteWithPrivateKey_def Let_def split: sum.splits prod.splits if_splits option.splits)
  apply (auto simp: reader_append run_closer_readers probe_readers dest!: executeRemote_closed_once)
  done

lemma ExecuteRemote_closed_once:
  assumes run: "ExecuteRemote env host port user callback = (t, r)"
    and opn: "operator \<in> set (opened t)"
  shows "closes t = [operator] \<and> r = snd (callback (RemoteOperator operator)) \<and>
         (\<exists>a c. lifecycle t =
            [EvNewSSHOperator a c (Inr operator),
             EvCallback (RemoteOperator operator) (fst (callback (RemoteOperator operator))),
             EvOperatorClose operator])"
  using run opn
  by (auto simp: ExecuteRemote_def Let_def split: sum.splits prod.splits)

lemma executeRemote_quiet:
  assumes "executeRemote env host port user authMethod callback = (t, r)"
  shows "agent_dials t = []" "agent_opened t = []" "agent_closes t = []" "agent_lists t = []"
    "prompts t = []" "prints t = []"
    "ssh_dials t = [(host_port host port,
       \<lparr>User = user, Auth = [authMethod], HostKeyCallback = InsecureIgnoreHostKey\<rparr>)]"
  using executeRemote_result [OF assms] by auto

lemma run_closer_quiet:
  "prints (run_closer env c) = []" "agent_dials (run_closer env c) = []"
  "agent_lists (run_closer env c) = []" "EvNewSSHOperator a cfg x \<notin> set (run_closer env c)"
  by (cases c; simp)+

lemma probe_quiet:
  assumes "privateKeyUsingSSHAgent env p = (t, m, c)"
  shows "prints t = []" "EvNewSSHOperator a cfg x \<notin> set t"
  using assms
  by (auto simp: privateKeyUsingSSHAgent_def Let_def split: sum.splits prod.splits if_splits)

lemma blob_match_iff: "blob_match keys parsedkey \<longleftrightarrow> parsedkey \<in> Blob ` set keys"
  by (induction keys) auto

lemma probe_match:
  assumes "net_dial env ''unix'' (getenv env ''SSH_AUTH_SOCK'') = Inr c"
    and "agent_list env c = (keys, lerr)"
    and "read_file env (expandPath env publicKeyPath) = Inr pubkey"
    and "parse_authorized_key env pubkey = Inr authkey"
    and "key \<in> set keys" and "Blob key = Marshal authkey"
  shows "privateKeyUsingSSHAgent env publicKeyPath =
           ([EvNetDial ''unix'' (getenv env ''SSH_AUTH_SOCK'') (Inr c), EvAgentList c,
             EvReadFile (expandPath env publicKeyPath), EvParseAuthorizedKey pubkey],
            Some (PublicKeysCallback (AgentSigners c)), ConnCloseFn c)"
proof -
  from assms(5,6) have m: "blob_match keys (Marshal authkey)"
    unfolding blob_match_iff by (metis imageI)
  from assms(5) have ne: "keys \<noteq> []" by auto
  show ?thesis
    using assms(1-4) m ne by (simp add: privateKeyUsingSSHAgent_def Let_def)
qed

lemma probe_failure:
  assumes "(\<exists>e. net_dial env ''unix'' (getenv env ''SSH_AUTH_SOCK'') = Inl e)
         \<or> (\<exists>c. net_dial env ''unix'' (getenv env ''SSH_AUTH_SOCK'') = Inr c
                \<and> fst (agent_list env c) = [])
         \<or> (\<exists>c e. net_dial env ''unix'' (getenv env ''SSH_AUTH_SOCK'') = Inr c
                \<and> read_file env (expandPath env publicKeyPath) = Inl e)
         \<or> (\<exists>c pubkey e. net_dial env ''unix'' (getenv env ''SSH_AUTH_SOCK'') = Inr c
                \<and> read_file env (expandPath env publicKeyPath) = Inr pubkey
                \<and> parse_authorized_key env pubkey = Inl e)"
  shows "fst (snd (privateKeyUsingSSHAgent env publicKeyPath)) = None"
  using assms
  by (auto simp: privateKeyUsingSSHAgent_def Let_def split: sum.splits prod.splits)

lemma passphrase_path:
  assumes rd: "read_file env (expandPath env privateKey) = Inr buffer"
    and enc: "parse_private_key env buffer = Inl err" "Error err = passphrase_protected"
    and nomatch: "fst (snd (privateKeyUsingSSHAgent env (privateKey @ ''.pub''))) = None"
    and run: "ExecuteRemoteWithPrivateKey env host port user privateKey callback = (t, r)"
  shows "\<exists>tp closeAgent t'.
      privateKeyUsingSSHAgent env (privateKey @ ''.pub'') = (tp, None, closeAgent) \<and>
      t = [EvReadFile (expandPath env privateKey), EvParsePrivateKey buffer] @ tp @
          [EvPrint (passphrase_prompt privateKey), EvReadPassword (stdin_fd env),
           EvPrint [CHR 0x0A],
           EvParsePrivateKeyWithPassphrase buffer (fst (read_password env (stdin_fd env)))] @
          t' @ run_closer env closeAgent \<and>
      (case parse_private_key_with_passphrase env buffer (fst (read_password env (stdin_fd env))) of
         Inl e \<Rightarrow> t' = [] \<and>
           r = Some (WithMessage e (''parse private key with passphrase failed: '' @ privateKey))
       | Inr key \<Rightarrow> (t', r) = executeRemote env host port user (PublicKeys key) callback)"
proof -
  obtain tp m closeAgent where p: "privateKeyUsingSSHAgent env (privateKey @ ''.pub'') = (tp, m, closeAgent)"
    by (cases "privateKeyUsingSSHAgent env (privateKey @ ''.pub'')")
  with nomatch have m: "m = None" by simp
  show ?thesis
    using run rd enc p m
    by (auto simp: ExecuteRemoteWithPrivateKey_def Let_def split: sum.splits prod.splits)
qed

lemma executeRemote_failed_open:
  assumes run: "executeRemote env host port user authMethod callback = (t, r)"
  shows "list_all (\<lambda>(a, c). a = host_port host port \<and> HostKeyCallback c = InsecureIgnoreHostKey)
           (ssh_dials t)"
    and "EvNewSSHOperator a c (Inl err) \<in> set t \<Longrightarrow>
           r = Some (WithMessage err (''unable to connect to '' @ host_port host port @ '' over ssh''))
           \<and> closes t = []"
  using executeRemote_result [OF run] by auto

lemma ExecuteRemoteWithPrivateKey_failed_open:
  assumes run: "ExecuteRemoteWithPrivateKey env host port user privateKey callback = (t, r)"
  shows "list_all (\<lambda>(a, c). a = host_port host port \<and> HostKeyCallback c = InsecureIgnoreHostKey)
           (ssh_dials t)"
    and "EvNewSSHOperator a c (Inl err) \<in> set t \<Longrightarrow>
           r = Some (WithMessage err (''unable to connect to '' @ host_port host port @ '' over ssh''))
           \<and> closes t = []"
  using run
  by (auto simp: ExecuteRemoteWithPrivateKey_def Let_def reader_append run_closer_readers
        probe_readers run_closer_quiet probe_quiet
      split: sum.splits prod.splits if_splits option.splits
      dest!: executeRemote_result)

lemma ExecuteRemote_failed_open:
  assumes run: "ExecuteRemote env host port user callback = (t, r)"
  shows "list_all (\<lambda>(a, c). a = host_port host port \<and> HostKeyCallback c = InsecureIgnoreHostKey)
           (ssh_dials t)"
    and "EvNewSSHOperator a c (Inl err) \<in> set t \<Longrightarrow>
           r = Some (WithMessage err (''unable to connect to '' @ host_port host port @ '' over ssh''))
           \<and> closes t = []"
  using run
  by (auto simp: ExecuteRemote_def Let_def split: sum.splits prod.splits)

section \<open>The claims\<close>

subsection \<open>The main connection is closed once\<close>

text \<open>
  C1. Every remote entry point (password, private key, agent) that opened a connection
  closes that connection exactly once, after the callback has run and before it returns,
  and returns the callback's own result, whatever \<open>Close\<close> reports: in the log of
  the call the only events of the connection are its opening, the callback and one close,
  in that order.
\<close>

theorem connection_closed_once:
  assumes run: "ExecuteRemoteWithPassword env host port user password callback = (t, r)
              \<or> ExecuteRemoteWithPrivateKey env host port user privateKey callback = (t, r)
              \<or> ExecuteRemote env host port user callback = (t, r)"
    and opn: "operator \<in> set (opened t)"
  shows "closes t = [operator]
       \<and> r = snd (callback (RemoteOperator operator))
       \<and> (\<exists>a c. lifecycle t =
            [EvNewSSHOperator a c (Inr operator),
             EvCallback (RemoteOperator operator) (fst (callback (RemoteOperator operator))),
             EvOperatorClose operator])"
  using run
proof (elim disjE)
  assume "ExecuteRemoteWithPassword env host port user password callback = (t, r)"
  then have "executeRemote env host port user (Password password) callback = (t, r)"
    by (simp add: ExecuteRemoteWithPassword_def)
  from executeRemote_closed_once [OF this opn] show ?thesis .
next
  assume "ExecuteRemoteWithPrivateKey env host port user privateKey callback = (t, r)"
  from ExecuteRemoteWithPrivateKey_closed_once [OF this opn] show ?thesis .
next
  assume "ExecuteRemote env host port user callback = (t, r)"
  from ExecuteRemote_closed_once [OF this opn] show ?thesis .
qed

theorem connection_closed_once_witness:
  "SSHOperator 1 \<in> set (opened (fst (ExecuteRemoteWithPrivateKey demo_env ''h'' 22 ''root'' ''id_ed'' demo_fail)))
   \<and> operator_close demo_env (SSHOperator 1) = Some (ErrorString ''close failed'')
   \<and> closes (fst (ExecuteRemoteWithPrivateKey demo_env ''h'' 22 ''root'' ''id_ed'' demo_fail))
       = [SSHOperator 1]
   \<and> snd (ExecuteRemoteWithPrivateKey demo_env ''h'' 22 ''root'' ''id_ed'' demo_fail)
       = Some (ErrorString ''upload failed'')"
proof -
  let ?run = "ExecuteRemoteWithPrivateKey demo_env ''h'' 22 ''root'' ''id_ed'' demo_fail"
  have opn: "SSHOperator 1 \<in> set (opened (fst ?run))"
    by code_simp
  have run: "ExecuteRemoteWithPassword demo_env ''h'' 22 ''root'' ''pw'' demo_fail = (fst ?run, snd ?run)
           \<or> ?run = (fst ?run, snd ?run)
           \<or> ExecuteRemote demo_env ''h'' 22 ''root'' demo_fail = (fst ?run, snd ?run)"
    by simp
  have cb: "snd (demo_fail (RemoteOperator (SSHOperator 1))) = Some (ErrorString ''upload failed'')"
    by (simp add: demo_fail_def)
  have cl: "operator_close demo_env (SSHOperator 1) = Some (ErrorString ''close failed'')"
    by (simp add: demo_env_def)
  from connection_closed_once [OF run opn] opn cb cl show ?thesis
    by simp
qed

subsection \<open>A matching agent identity avoids the prompt\<close>

text \<open>
  C2. \<open>ExecuteRemoteWithPrivateKey\<close> on a passphrase-protected key, with an agent that
  lists an identity whose blob equals the marshalled public key parsed from the \<open>.pub\<close>
  file: the probe answers with the agent's signers, the one session is opened with that
  method, and nothing is printed or read from the terminal.
\<close>

theorem agent_match_no_prompt:
  assumes rd: "read_file env (expandPath env privateKey) = Inr buffer"
    and enc: "parse_private_key env buffer = Inl err" "Error err = passphrase_protected"
    and dial: "net_dial env ''unix'' (getenv env ''SSH_AUTH_SOCK'') = Inr c"
    and lst: "agent_list env c = (keys, lerr)"
    and pub: "read_file env (expandPath env (privateKey @ ''.pub'')) = Inr pubkey"
    and auth: "parse_authorized_key env pubkey = Inr authkey"
    and match: "key \<in> set keys" "Blob key = Marshal authkey"
    and run: "ExecuteRemoteWithPrivateKey env host port user privateKey callback = (t, r)"
  shows "fst (snd (privateKeyUsingSSHAgent env (privateKey @ ''.pub''))) =
           Some (PublicKeysCallback (AgentSigners c))
       \<and> map (Auth \<circ> snd) (ssh_dials t) = [[PublicKeysCallback (AgentSigners c)]]
       \<and> prompts t = [] \<and> prints t = []"
proof -
  note p = probe_match [OF dial lst pub auth match]
  obtain t' r' where ex: "executeRemote env host port user (PublicKeysCallback (AgentSigners c)) callback = (t', r')"
    by (cases "executeRemote env host port user (PublicKeysCallback (AgentSigners c)) callback")
  from run rd enc p ex have t: "t = [EvReadFile (expandPath env privateKey), EvParsePrivateKey buffer]
      @ [EvNetDial ''unix'' (getenv env ''SSH_AUTH_SOCK'') (Inr c), EvAgentList c,
             EvReadFile (expandPath env (privateKey @ ''.pub'')), EvParseAuthorizedKey pubkey]
      @ t' @ [EvConnClose c]"
    by (simp add: ExecuteRemoteWithPrivateKey_def Let_def)
  show ?thesis
    using p executeRemote_quiet [OF ex]
    by (simp add: t reader_append prints_append)
qed

theorem agent_match_no_prompt_witness:
  "fst (snd (privateKeyUsingSSHAgent demo_env (''id_rsa'' @ ''.pub''))) =
       Some (PublicKeysCallback (AgentSigners (Conn 7)))
   \<and> map (Auth \<circ> snd)
        (ssh_dials (fst (ExecuteRemoteWithPrivateKey demo_env ''h'' 22 ''root'' ''id_rsa'' demo_ok)))
       = [[PublicKeysCallback (AgentSigners (Conn 7))]]
   \<and> prompts (fst (ExecuteRemoteWithPrivateKey demo_env ''h'' 22 ''root'' ''id_rsa'' demo_ok)) = []
   \<and> prints (fst (ExecuteRemoteWithPrivateKey demo_env ''h'' 22 ''root'' ''id_rsa'' demo_ok)) = []"
proof -
  let ?run = "ExecuteRemoteWithPrivateKey demo_env ''h'' 22 ''root'' ''id_rsa'' demo_ok"
  let ?key = "\<lparr>Format = ''ssh-rsa'', Blob = ''blobR'', Comment = ''r''\<rparr>"
  have rd: "read_file demo_env (expandPath demo_env ''id_rsa'') = Inr ''encR''"
    by code_simp
  have enc: "parse_private_key demo_env ''encR'' =
               Inl (ErrorString ''ssh: this private key is passphrase protected'')"
    by code_simp
  have msg: "Error (ErrorString ''ssh: this private key is passphrase protected'') = passphrase_protected"
    by (simp add: passphrase_protected_def)
  have dial: "net_dial demo_env ''unix'' (getenv demo_env ''SSH_AUTH_SOCK'') = Inr (Conn 7)"
    by code_simp
  have lst: "agent_list demo_env (Conn 7) = (demo_list, None)"
    by (simp add: demo_env_def)
  have pub: "read_file demo_env (expandPath demo_env (''id_rsa'' @ ''.pub'')) = Inr ''pubR''"
    by code_simp
  have auth: "parse_authorized_key demo_env ''pubR'' = Inr (PublicKey ''blobR'')"
    by code_simp
  have mem: "?key \<in> set demo_list"
    by (simp add: demo_list_def)
  have blob: "Blob ?key = Marshal (PublicKey ''blobR'')"
    by simp
  have run: "?run = (fst ?run, snd ?run)"
    by simp
  from agent_match_no_prompt [OF rd enc msg dial lst pub auth mem blob run] show ?thesis .
qed

subsection \<open>Probe failures fall through to the prompt\<close>

text \<open>
  C3. On a passphrase-protected key, each failure of the probe (agent socket unreachable,
  agent without identities, \<open>.pub\<close> file unreadable, \<open>.pub\<close> file not parseable) makes
  the probe answer "no method"; the passphrase is then read once, and the result of the call
  is the one of the passphrase path: the wrapped error of the second parse, or what
  \<open>executeRemote\<close> returns with the decrypted key. No error of the probe is returned.
\<close>

theorem probe_failure_falls_through:
  assumes rd: "read_file env (expandPath env privateKey) = Inr buffer"
    and enc: "parse_private_key env buffer = Inl err" "Error err = passphrase_protected"
    and failure:
        "(\<exists>e. net_dial env ''unix'' (getenv env ''SSH_AUTH_SOCK'') = Inl e)
         \<or> (\<exists>c. net_dial env ''unix'' (getenv env ''SSH_AUTH_SOCK'') = Inr c
                \<and> fst (agent_list env c) = [])
         \<or> (\<exists>c e. net_dial env ''unix'' (getenv env ''SSH_AUTH_SOCK'') = Inr c
                \<and> read_file env (expandPath env (privateKey @ ''.pub'')) = Inl e)
         \<or> (\<exists>c pubkey e. net_dial env ''unix'' (getenv env ''SSH_AUTH_SOCK'') = Inr c
                \<and> read_file env (expandPath env (privateKey @ ''.pub'')) = Inr pubkey
                \<and> parse_authorized_key env pubkey = Inl e)"
    and run: "ExecuteRemoteWithPrivateKey env host port user privateKey callback = (t, r)"
  shows "fst (snd (privateKeyUsingSSHAgent env (privateKey @ ''.pub''))) = None
       \<and> prompts t = [stdin_fd env]
       \<and> r = (case parse_private_key_with_passphrase env buffer
                      (fst (read_password env (stdin_fd env))) of
                 Inl e \<Rightarrow> Some (WithMessage e
                            (''parse private key with passphrase failed: '' @ privateKey))
               | Inr key \<Rightarrow> snd (executeRemote env host port user (PublicKeys key) callback))"
proof -
  note nomatch = probe_failure [OF failure]
  from passphrase_path [OF rd enc nomatch run] obtain tp closeAgent t' where
    p: "privateKeyUsingSSHAgent env (privateKey @ ''.pub'') = (tp, None, closeAgent)"
    and t: "t = [EvReadFile (expandPath env privateKey), EvParsePrivateKey buffer] @ tp @
          [EvPrint (passphrase_prompt privateKey), EvReadPassword (stdin_fd env),
           EvPrint [CHR 0x0A],
           EvParsePrivateKeyWithPassphrase buffer (fst (read_password env (stdin_fd env)))] @
          t' @ run_closer env closeAgent"
    and c: "(case parse_private_key_with_passphrase env buffer (fst (read_password env (stdin_fd env))) of
         Inl e \<Rightarrow> t' = [] \<and>
           r = Some (WithMessage e (''parse private key with passphrase failed: '' @ privateKey))
       | Inr key \<Rightarrow> (t', r) = executeRemote env host port user (PublicKeys key) callback)"
    by blast
  have t': "prompts t' = []"
    using c by (auto split: sum.splits dest: executeRemote_quiet(5) [OF sym])
  have "prompts t = [stdin_fd env]"
    by (simp add: t reader_append probe_readers [OF p] run_closer_readers t')
  moreover have "r = (case parse_private_key_with_passphrase env buffer
                      (fst (read_password env (stdin_fd env))) of
                 Inl e \<Rightarrow> Some (WithMessage e
                            (''parse private key with passphrase failed: '' @ privateKey))
               | Inr key \<Rightarrow> snd (executeRemote env host port user (PublicKeys key) callback))"
    using c by (auto split: sum.splits dest: arg_cong [where f = snd])
  ultimately show ?thesis using nomatch by simp
qed

theorem probe_failure_falls_through_witness:
  "net_dial unreachable_env ''unix'' (getenv unreachable_env ''SSH_AUTH_SOCK'')
       = Inl (ErrorString ''dial: no such file'')
   \<and> fst (snd (privateKeyUsingSSHAgent unreachable_env (''id_rsa'' @ ''.pub''))) = None
   \<and> prompts (fst (ExecuteRemoteWithPrivateKey unreachable_env ''h'' 22 ''root'' ''id_rsa'' demo_fail))
       = [0]
   \<and> snd (ExecuteRemoteWithPrivateKey unreachable_env ''h'' 22 ''root'' ''id_rsa'' demo_fail)
       = Some (ErrorString ''upload failed'')"
proof -
  let ?env = unreachable_env
  let ?run = "ExecuteRemoteWithPrivateKey ?env ''h'' 22 ''root'' ''id_rsa'' demo_fail"
  have rd: "read_file ?env (expandPath ?env ''id_rsa'') = Inr ''encR''"
    by code_simp
  have enc: "parse_private_key ?env ''encR'' =
               Inl (ErrorString ''ssh: this private key is passphrase protected'')"
    by code_simp
  have msg: "Error (ErrorString ''ssh: this private key is passphrase protected'') = passphrase_protected"
    by (simp add: passphrase_protected_def)
  have dial: "net_dial ?env ''unix'' (getenv ?env ''SSH_AUTH_SOCK'') = Inl (ErrorString ''dial: no such file'')"
    by code_simp
  then have failure:
    "(\<exists>e. net_dial ?env ''unix'' (getenv ?env ''SSH_AUTH_SOCK'') = Inl e)
     \<or> (\<exists>c. net_dial ?env ''unix'' (getenv ?env ''SSH_AUTH_SOCK'') = Inr c
            \<and> fst (agent_list ?env c) = [])
     \<or> (\<exists>c e. net_dial ?env ''unix'' (getenv ?env ''SSH_AUTH_SOCK'') = Inr c
            \<and> read_file ?env (expandPath ?env (''id_rsa'' @ ''.pub'')) = Inl e)
     \<or> (\<exists>c pubkey e. net_dial ?env ''unix'' (getenv ?env ''SSH_AUTH_SOCK'') = Inr c
            \<and> read_file ?env (expandPath ?env (''id_rsa'' @ ''.pub'')) = Inr pubkey
            \<and> parse_authorized_key ?env pubkey = Inl e)"
    by blast
  have run: "?run = (fst ?run, snd ?run)"
    by simp
  have pp: "parse_private_key_with_passphrase ?env ''encR'' (fst (read_password ?env (stdin_fd ?env)))
              = Inr (Signer ''encR'')"
    by code_simp
  have ex: "snd (executeRemote ?env ''h'' 22 ''root'' (PublicKeys (Signer ''encR'')) demo_fail)
              = Some (ErrorString ''upload failed'')"
    by code_simp
  have fd: "stdin_fd ?env = 0"
    by code_simp
  note c = probe_failure_falls_through [OF rd enc msg failure run, unfolded pp sum.case ex]
  from c have 1: "fst (snd (privateKeyUsingSSHAgent ?env (''id_rsa'' @ ''.pub''))) = None"
    and 2: "prompts (fst ?run) = [stdin_fd ?env]"
    and 3: "snd ?run = Some (ErrorString ''upload failed'')"
    by blast+
  from 2 fd have "prompts (fst ?run) = [0]"
    by simp
  with dial 1 3 show ?thesis
    by blast
qed

subsection \<open>One prompt, and a wrong passphrase is fatal\<close>

text \<open>
  C4. On a passphrase-protected key for which the probe answers "no method", the passphrase
  is prompted for and read exactly once; when the parse with the entered passphrase fails,
  the call returns that error wrapped with "parse private key with passphrase failed" and
  opens no session.
\<close>

theorem prompt_once:
  assumes rd: "read_file env (expandPath env privateKey) = Inr buffer"
    and enc: "parse_private_key env buffer = Inl err" "Error err = passphrase_protected"
    and nomatch: "fst (snd (privateKeyUsingSSHAgent env (privateKey @ ''.pub''))) = None"
    and run: "ExecuteRemoteWithPrivateKey env host port user privateKey callback = (t, r)"
  shows "prompts t = [stdin_fd env]
       \<and> prints t = [passphrase_prompt privateKey, [CHR 0x0A]]
       \<and> (\<forall>e. parse_private_key_with_passphrase env buffer
                  (fst (read_password env (stdin_fd env))) = Inl e \<longrightarrow>
              r = Some (WithMessage e
                     (''parse private key with passphrase failed: '' @ privateKey))
              \<and> ssh_dials t = [])"
proof -
  from passphrase_path [OF rd enc nomatch run] obtain tp closeAgent t' where
    p: "privateKeyUsingSSHAgent env (privateKey @ ''.pub'') = (tp, None, closeAgent)"
    and t: "t = [EvReadFile (expandPath env privateKey), EvParsePrivateKey buffer] @ tp @
          [EvPrint (passphrase_prompt privateKey), EvReadPassword (stdin_fd env),
           EvPrint [CHR 0x0A],
           EvParsePrivateKeyWithPassphrase buffer (fst (read_password env (stdin_fd env)))] @
          t' @ run_closer env closeAgent"
    and c: "(case parse_private_key_with_passphrase env buffer (fst (read_password env (stdin_fd env))) of
         Inl e \<Rightarrow> t' = [] \<and>
           r = Some (WithMessage e (''parse private key with passphrase failed: '' @ privateKey))
       | Inr key \<Rightarrow> (t', r) = executeRemote env host port user (PublicKeys key) callback)"
    by blast
  have t': "prompts t' = [] \<and> prints t' = []"
    using c by (auto split: sum.splits dest: executeRemote_quiet(5,6) [OF sym])
  have 1: "prompts t = [stdin_fd env]"
    by (simp add: t reader_append probe_readers [OF p] run_closer_readers t')
  have 2: "prints t = [passphrase_prompt privateKey, [CHR 0x0A]]"
    by (simp add: t prints_append probe_quiet [OF p] run_closer_quiet t')
  have 3: "r = Some (WithMessage e (''parse private key with passphrase failed: '' @ privateKey))
           \<and> ssh_dials t = []"
    if "parse_private_key_with_passphrase env buffer (fst (read_password env (stdin_fd env))) = Inl e"
    for e
    using c that by (simp add: t reader_append probe_readers [OF p] run_closer_readers)
  from 1 2 3 show ?thesis by blast
qed

theorem prompt_once_witness:
  "fst (snd (privateKeyUsingSSHAgent wrong_passphrase_env (''id_ed'' @ ''.pub''))) = None
   \<and> parse_private_key_with_passphrase wrong_passphrase_env ''encE''
        (fst (read_password wrong_passphrase_env (stdin_fd wrong_passphrase_env)))
       = Inl (ErrorString ''x509: decryption password incorrect'')
   \<and> prompts (fst (ExecuteRemoteWithPrivateKey wrong_passphrase_env ''h'' 22 ''root'' ''id_ed'' demo_ok))
       = [0]
   \<and> snd (ExecuteRemoteWithPrivateKey wrong_passphrase_env ''h'' 22 ''root'' ''id_ed'' demo_ok)
       = Some (WithMessage (ErrorString ''x509: decryption password incorrect'')
                 ''parse private key with passphrase failed: id_ed'')
   \<and> ssh_dials (fst (ExecuteRemoteWithPrivateKey wrong_passphrase_env ''h'' 22 ''root'' ''id_ed'' demo_ok))
       = []"
proof -
  let ?env = wrong_passphrase_env
  let ?run = "ExecuteRemoteWithPrivateKey ?env ''h'' 22 ''root'' ''id_ed'' demo_ok"
  have rd: "read_file ?env (expandPath ?env ''id_ed'') = Inr ''encE''"
    by code_simp
  have enc: "parse_private_key ?env ''encE'' =
               Inl (ErrorString ''ssh: this private key is passphrase protected'')"
    by code_simp
  have msg: "Error (ErrorString ''ssh: this private key is passphrase protected'') = passphrase_protected"
    by (simp add: passphrase_protected_def)
  have nomatch: "fst (snd (privateKeyUsingSSHAgent ?env (''id_ed'' @ ''.pub''))) = None"
    by code_simp
  have run: "?run = (fst ?run, snd ?run)"
    by simp
  have pp: "parse_private_key_with_passphrase ?env ''encE'' (fst (read_password ?env (stdin_fd ?env)))
              = Inl (ErrorString ''x509: decryption password incorrect'')"
    by code_simp
  have fd: "stdin_fd ?env = 0"
    by code_simp
  note c = prompt_once [OF rd enc msg nomatch run]
  from c have 1: "prompts (fst ?run) = [stdin_fd ?env]"
    by blast
  from c pp have 2: "snd ?run = Some (WithMessage (ErrorString ''x509: decryption password incorrect'')
                 (''parse private key with passphrase failed: '' @ ''id_ed''))"
    and 3: "ssh_dials (fst ?run) = []"
    by blast+
  from 1 fd have 1: "prompts (fst ?run) = [0]"
    by simp
  from 2 have 2: "snd ?run = Some (WithMessage (ErrorString ''x509: decryption password incorrect'')
                 ''parse private key with passphrase failed: id_ed'')"
    by simp
  from nomatch pp 1 2 3 show ?thesis
    by blast
qed

subsection \<open>A plain key is used directly\<close>

text \<open>
  C5. A key file that parses without a passphrase: the parsed key is the authentication
  method of the one session, the call is the file read and the parse followed by
  \<open>executeRemote\<close>, and the log has no agent dial, no agent listing, no agent close, no
  print and no read from the terminal.
\<close>

theorem plain_key_direct:
  assumes rd: "read_file env (expandPath env privateKey) = Inr buffer"
    and ok: "parse_private_key env buffer = Inr key"
    and run: "ExecuteRemoteWithPrivateKey env host port user privateKey callback = (t, r)"
  shows "ssh_dials t = [(host_port host port,
            \<lparr>User = user, Auth = [PublicKeys key], HostKeyCallback = InsecureIgnoreHostKey\<rparr>)]
       \<and> agent_dials t = [] \<and> agent_lists t = [] \<and> agent_closes t = []
       \<and> prompts t = [] \<and> prints t = []
       \<and> t = [EvReadFile (expandPath env privateKey), EvParsePrivateKey buffer] @
             fst (executeRemote env host port user (PublicKeys key) callback)
       \<and> r = snd (executeRemote env host port user (PublicKeys key) callback)"
proof -
  obtain t' r' where ex: "executeRemote env host port user (PublicKeys key) callback = (t', r')"
    by (cases "executeRemote env host port user (PublicKeys key) callback")
  from run rd ok ex have t: "t = [EvReadFile (expandPath env privateKey), EvParsePrivateKey buffer] @ t'"
    and r: "r = r'"
    by (simp_all add: ExecuteRemoteWithPrivateKey_def Let_def)
  show ?thesis
    using executeRemote_quiet [OF ex]
    by (simp add: t r ex reader_append prints_append)
qed

theorem plain_key_direct_witness:
  "parse_private_key demo_env ''plain'' = Inr (Signer ''plain'')
   \<and> ssh_dials (fst (ExecuteRemoteWithPrivateKey demo_env ''h'' 22 ''root'' ''id_plain'' demo_ok))
       = [(''h:22'', \<lparr>User = ''root'', Auth = [PublicKeys (Signer ''plain'')],
                       HostKeyCallback = InsecureIgnoreHostKey\<rparr>)]
   \<and> agent_dials (fst (ExecuteRemoteWithPrivateKey demo_env ''h'' 22 ''root'' ''id_plain'' demo_ok)) = []
   \<and> prompts (fst (ExecuteRemoteWithPrivateKey demo_env ''h'' 22 ''root'' ''id_plain'' demo_ok)) = []"
proof -
  let ?run = "ExecuteRemoteWithPrivateKey demo_env ''h'' 22 ''root'' ''id_plain'' demo_ok"
  have rd: "read_file demo_env (expandPath demo_env ''id_plain'') = Inr ''plain''"
    by code_simp
  have ok: "parse_private_key demo_env ''plain'' = Inr (Signer ''plain'')"
    by code_simp
  have run: "?run = (fst ?run, snd ?run)"
    by simp
  have hp: "host_port ''h'' 22 = ''h:22''"
    by code_simp
  note c = plain_key_direct [OF rd ok run, unfolded hp]
  from c have "ssh_dials (fst ?run)
       = [(''h:22'', \<lparr>User = ''root'', Auth = [PublicKeys (Signer ''plain'')],
                       HostKeyCallback = InsecureIgnoreHostKey\<rparr>)]"
    and "agent_dials (fst ?run) = []" and "prompts (fst ?run) = []"
    by blast+
  with ok show ?thesis
    by blast
qed

subsection \<open>Other parse failures are fatal\<close>

text \<open>
  C6. A key file whose parse fails with a message other than "ssh: this private key is
  passphrase protected": the call returns that error wrapped with "unable to parse private
  key", and its log is the file read and the parse only: no agent probe, no prompt, no
  session.
\<close>

theorem bad_key_fatal:
  assumes rd: "read_file env (expandPath env privateKey) = Inr buffer"
    and bad: "parse_private_key env buffer = Inl err"
    and other: "Error err \<noteq> passphrase_protected"
    and run: "ExecuteRemoteWithPrivateKey env host port user privateKey callback = (t, r)"
  shows "r = Some (WithMessage err (''unable to parse private key: '' @ privateKey))
       \<and> t = [EvReadFile (expandPath env privateKey), EvParsePrivateKey buffer]
       \<and> agent_dials t = [] \<and> agent_lists t = [] \<and> prompts t = [] \<and> prints t = []
       \<and> ssh_dials t = []"
  using run rd bad other
  by (auto simp: ExecuteRemoteWithPrivateKey_def Let_def)

theorem bad_key_fatal_witness:
  "parse_private_key demo_env ''junk'' = Inl (ErrorString ''ssh: no key found'')
   \<and> Error (ErrorString ''ssh: no key found'') \<noteq> passphrase_protected
   \<and> ExecuteRemoteWithPrivateKey demo_env ''h'' 22 ''root'' ''id_bad'' demo_ok
       = ([EvReadFile ''id_bad'', EvParsePrivateKey ''junk''],
          Some (WithMessage (ErrorString ''ssh: no key found'') ''unable to parse private key: id_bad''))"
proof -
  let ?run = "ExecuteRemoteWithPrivateKey demo_env ''h'' 22 ''root'' ''id_bad'' demo_ok"
  have rd: "read_file demo_env (expandPath demo_env ''id_bad'') = Inr ''junk''"
    by code_simp
  have bad: "parse_private_key demo_env ''junk'' = Inl (ErrorString ''ssh: no key found'')"
    by code_simp
  have other: "Error (ErrorString ''ssh: no key found'') \<noteq> passphrase_protected"
    by (simp add: passphrase_protected_def)
  have run: "?run = (fst ?run, snd ?run)"
    by simp
  have path: "expandPath demo_env ''id_bad'' = ''id_bad''"
    by code_simp
  note c = bad_key_fatal [OF rd bad other run, unfolded path]
  from c have "snd ?run = Some (WithMessage (ErrorString ''ssh: no key found'')
                 (''unable to parse private key: '' @ ''id_bad''))"
    and "fst ?run = [EvReadFile ''id_bad'', EvParsePrivateKey ''junk'']"
    by blast+
  then have "?run = ([EvReadFile ''id_bad'', EvParsePrivateKey ''junk''],
          Some (WithMessage (ErrorString ''ssh: no key found'') ''unable to parse private key: id_bad''))"
    by (simp add: prod_eq_iff)
  with bad other show ?thesis
    by blast
qed

subsection \<open>Configuration and failed session\<close>

text \<open>
  C7. Every session the three remote entry points try to open is addressed to
  \<open>host:port\<close> with a configuration whose host-key callback is
  \<open>InsecureIgnoreHostKey\<close>; when the opening fails, the call returns the failure wrapped
  with "unable to connect to host:port over ssh" and the log has no close of a connection.
\<close>

theorem insecure_config_and_wrapped_dial_error:
  assumes run: "ExecuteRemoteWithPassword env host port user password callback = (t, r)
              \<or> ExecuteRemoteWithPrivateKey env host port user privateKey callback = (t, r)
              \<or> ExecuteRemote env host port user callback = (t, r)"
  shows "list_all (\<lambda>(a, c). a = host_port host port \<and> HostKeyCallback c = InsecureIgnoreHostKey)
           (ssh_dials t)
       \<and> (\<forall>a c err. EvNewSSHOperator a c (Inl err) \<in> set t \<longrightarrow>
             r = Some (WithMessage err (''unable to connect to '' @ host_port host port @ '' over ssh''))
             \<and> map_option Error r =
                 Some (''unable to connect to '' @ host @ '':'' @ itoa port @ '' over ssh: '' @ Error err)
             \<and> closes t = [])"
  using run
proof (elim disjE)
  assume "ExecuteRemoteWithPassword env host port user password callback = (t, r)"
  then have "executeRemote env host port user (Password password) callback = (t, r)"
    by (simp add: ExecuteRemoteWithPassword_def)
  from executeRemote_failed_open [OF this] show ?thesis
    by (simp add: host_port_def)
next
  assume "ExecuteRemoteWithPrivateKey env host port user privateKey callback = (t, r)"
  from ExecuteRemoteWithPrivateKey_failed_open [OF this] show ?thesis
    by (simp add: host_port_def)
next
  assume "ExecuteRemote env host port user callback = (t, r)"
  from ExecuteRemote_failed_open [OF this] show ?thesis
    by (simp add: host_port_def)
qed

theorem insecure_config_and_wrapped_dial_error_witness:
  "ExecuteRemoteWithPassword demo_env ''h'' 23 ''root'' ''pw'' demo_ok
     = ([EvNewSSHOperator ''h:23''
           \<lparr>User = ''root'', Auth = [Password ''pw''], HostKeyCallback = InsecureIgnoreHostKey\<rparr>
           (Inl (ErrorString ''dial tcp: connection refused''))],
        Some (WithMessage (ErrorString ''dial tcp: connection refused'')
                ''unable to connect to h:23 over ssh''))
   \<and> map_option Error (snd (ExecuteRemoteWithPassword demo_env ''h'' 23 ''root'' ''pw'' demo_ok))
       = Some ''unable to connect to h:23 over ssh: dial tcp: connection refused''
   \<and> closes (fst (ExecuteRemoteWithPassword demo_env ''h'' 23 ''root'' ''pw'' demo_ok)) = []"
proof -
  let ?run = "ExecuteRemoteWithPassword demo_env ''h'' 23 ''root'' ''pw'' demo_ok"
  let ?cfg = "\<lparr>User = ''root'', Auth = [Password ''pw''], HostKeyCallback = InsecureIgnoreHostKey\<rparr>"
  let ?err = "ErrorString ''dial tcp: connection refused''"
  have t: "fst ?run = [EvNewSSHOperator ''h:23'' ?cfg (Inl ?err)]"
    by code_simp
  have run: "?run = (fst ?run, snd ?run)
           \<or> ExecuteRemoteWithPrivateKey demo_env ''h'' 23 ''root'' ''id_rsa'' demo_ok = (fst ?run, snd ?run)
           \<or> ExecuteRemote demo_env ''h'' 23 ''root'' demo_ok = (fst ?run, snd ?run)"
    by simp
  have ev: "EvNewSSHOperator ''h:23'' ?cfg (Inl ?err) \<in> set (fst ?run)"
    by (simp add: t)
  have hp: "host_port ''h'' 23 = ''h:23''" "itoa 23 = ''23''"
    by code_simp+
  from insecure_config_and_wrapped_dial_error [OF run] ev
  have "snd ?run = Some (WithMessage ?err (''unable to connect to '' @ host_port ''h'' 23 @ '' over ssh''))
      \<and> map_option Error (snd ?run) =
          Some (''unable to connect to '' @ ''h'' @ '':'' @ itoa 23 @ '' over ssh: '' @ Error ?err)
      \<and> closes (fst ?run) = []"
    by blast
  with t hp show ?thesis
    by (simp add: prod_eq_iff)
qed

subsection \<open>The agent-delegated entry point\<close>

text \<open>
  C8. \<open>ExecuteRemote\<close>: when the dial of the agent socket fails, the call returns the
  failure wrapped with "unable to reach SSH Agent" and has done nothing but that dial, so
  no session was attempted; when it succeeds, the one session uses the agent's
  \<open>Signers\<close> as its only method and the agent's identities are never listed.
\<close>

theorem agent_delegated_entry:
  assumes run: "ExecuteRemote env host port user callback = (t, r)"
  shows "(\<forall>err. net_dial env ''unix'' (getenv env ''SSH_AUTH_SOCK'') = Inl err \<longrightarrow>
            r = Some (WithMessage err ''unable to reach SSH Agent'')
            \<and> t = [EvNetDial ''unix'' (getenv env ''SSH_AUTH_SOCK'') (Inl err)]
            \<and> ssh_dials t = [])
       \<and> (\<forall>c. net_dial env ''unix'' (getenv env ''SSH_AUTH_SOCK'') = Inr c \<longrightarrow>
            ssh_dials t = [(host_port host port,
               \<lparr>User = user, Auth = [PublicKeysCallback (AgentSigners c)],
                  HostKeyCallback = InsecureIgnoreHostKey\<rparr>)]
            \<and> agent_lists t = [])"
  using run
  by (auto simp: ExecuteRemote_def Let_def split: sum.splits prod.splits)

theorem agent_delegated_entry_witness:
  "net_dial unreachable_env ''unix'' (getenv unreachable_env ''SSH_AUTH_SOCK'')
       = Inl (ErrorString ''dial: no such file'')
   \<and> ExecuteRemote unreachable_env ''h'' 22 ''root'' demo_ok
       = ([EvNetDial ''unix'' [] (Inl (ErrorString ''dial: no such file''))],
          Some (WithMessage (ErrorString ''dial: no such file'') ''unable to reach SSH Agent''))
   \<and> net_dial demo_env ''unix'' (getenv demo_env ''SSH_AUTH_SOCK'') = Inr (Conn 7)
   \<and> ssh_dials (fst (ExecuteRemote demo_env ''h'' 22 ''root'' demo_ok))
       = [(''h:22'', \<lparr>User = ''root'', Auth = [PublicKeysCallback (AgentSigners (Conn 7))],
                       HostKeyCallback = InsecureIgnoreHostKey\<rparr>)]
   \<and> agent_lists (fst (ExecuteRemote demo_env ''h'' 22 ''root'' demo_ok)) = []"
proof -
  let ?bad = "ExecuteRemote unreachable_env ''h'' 22 ''root'' demo_ok"
  let ?good = "ExecuteRemote demo_env ''h'' 22 ''root'' demo_ok"
  have d1: "net_dial unreachable_env ''unix'' (getenv unreachable_env ''SSH_AUTH_SOCK'')
              = Inl (ErrorString ''dial: no such file'')"
    by code_simp
  have d2: "net_dial demo_env ''unix'' (getenv demo_env ''SSH_AUTH_SOCK'') = Inr (Conn 7)"
    by code_simp
  have sock: "getenv unreachable_env ''SSH_AUTH_SOCK'' = []"
    by code_simp
  have hp: "host_port ''h'' 22 = ''h:22''"
    by code_simp
  have r1: "?bad = (fst ?bad, snd ?bad)" and r2: "?good = (fst ?good, snd ?good)"
    by simp_all
  from agent_delegated_entry [OF r1] d1 sock
  have 1: "?bad = ([EvNetDial ''unix'' [] (Inl (ErrorString ''dial: no such file''))],
          Some (WithMessage (ErrorString ''dial: no such file'') ''unable to reach SSH Agent''))"
    by (simp add: prod_eq_iff)
  from agent_delegated_entry [OF r2] d2 hp
  have 2: "ssh_dials (fst ?good)
       = [(''h:22'', \<lparr>User = ''root'', Auth = [PublicKeysCallback (AgentSigners (Conn 7))],
                       HostKeyCallback = InsecureIgnoreHostKey\<rparr>)]
       \<and> agent_lists (fst ?good) = []"
    by simp
  from 1 2 d1 d2 show ?thesis
    by simp
qed

subsection \<open>The agent connection of the probe\<close>

text \<open>
  C9. The agent connection of the probe and its close. With the key \<open>id_rsa\<close>, which the
  agent holds, the connection \<open>Conn 7\<close> is opened and closed once. With the key
  \<open>id_ed\<close>, whose \<open>.pub\<close> file parses but matches no identity of the agent, the
  connection is opened and the probe hands back the function that does nothing, so the
  connection is never closed.
\<close>

theorem agent_probe_leak:
  "agent_opened (fst (ExecuteRemoteWithPrivateKey demo_env ''h'' 22 ''root'' ''id_rsa'' demo_ok)) = [Conn 7]
   \<and> agent_closes (fst (ExecuteRemoteWithPrivateKey demo_env ''h'' 22 ''root'' ''id_rsa'' demo_ok)) = [Conn 7]
   \<and> agent_opened (fst (ExecuteRemoteWithPrivateKey demo_env ''h'' 22 ''root'' ''id_ed'' demo_ok)) = [Conn 7]
   \<and> agent_closes (fst (ExecuteRemoteWithPrivateKey demo_env ''h'' 22 ''root'' ''id_ed'' demo_ok)) = []
   \<and> snd (snd (privateKeyUsingSSHAgent demo_env (''id_ed'' @ ''.pub''))) = NopCloser"
  by code_simp

subsection \<open>A failed terminal read\<close>

text \<open>
  C10. On the passphrase path, when \<open>terminal.ReadPassword\<close> returns an error next to
  its bytes, the call does exactly what it does when the same bytes come without an error:
  it parses the key with those bytes, and its result is the wrapped error of that parse or
  what \<open>executeRemote\<close> returns. The read error is dropped.
\<close>

theorem read_error_discarded:
  assumes rd: "read_file env (expandPath env privateKey) = Inr buffer"
    and enc: "parse_private_key env buffer = Inl err" "Error err = passphrase_protected"
    and nomatch: "fst (snd (privateKeyUsingSSHAgent env (privateKey @ ''.pub''))) = None"
    and rerr: "read_password env (stdin_fd env) = (bytePassword, Some rerr)"
    and run: "ExecuteRemoteWithPrivateKey env host port user privateKey callback = (t, r)"
  shows "ExecuteRemoteWithPrivateKey
           (env\<lparr>read_password := (read_password env)(stdin_fd env := (bytePassword, None))\<rparr>)
           host port user privateKey callback = (t, r)
       \<and> EvParsePrivateKeyWithPassphrase buffer bytePassword \<in> set t
       \<and> r = (case parse_private_key_with_passphrase env buffer bytePassword of
                 Inl e \<Rightarrow> Some (WithMessage e
                            (''parse private key with passphrase failed: '' @ privateKey))
               | Inr key \<Rightarrow> snd (executeRemote env host port user (PublicKeys key) callback))"
proof -
  let ?env' = "env\<lparr>read_password := (read_password env)(stdin_fd env := (bytePassword, None))\<rparr>"
  have same: "privateKeyUsingSSHAgent ?env' p = privateKeyUsingSSHAgent env p"
    "executeRemote ?env' host port user m callback = executeRemote env host port user m callback"
    "run_closer ?env' cl = run_closer env cl"
    "expandPath ?env' q = expandPath env q" for p m cl q
    by (cases cl; simp add: privateKeyUsingSSHAgent_def executeRemote_def expandPath_def Let_def
          cong: sum.case_cong prod.case_cong if_cong)+
  have 1: "ExecuteRemoteWithPrivateKey ?env' host port user privateKey callback =
           ExecuteRemoteWithPrivateKey env host port user privateKey callback"
    using rerr
    unfolding ExecuteRemoteWithPrivateKey_def same
    by (simp add: Let_def cong: sum.case_cong prod.case_cong if_cong option.case_cong)
  have pw: "fst (read_password env (stdin_fd env)) = bytePassword"
    using rerr by simp
  from passphrase_path [OF rd enc nomatch run] obtain tp closeAgent t' where
    t: "t = [EvReadFile (expandPath env privateKey), EvParsePrivateKey buffer] @ tp @
          [EvPrint (passphrase_prompt privateKey), EvReadPassword (stdin_fd env),
           EvPrint [CHR 0x0A],
           EvParsePrivateKeyWithPassphrase buffer (fst (read_password env (stdin_fd env)))] @
          t' @ run_closer env closeAgent"
    and c: "(case parse_private_key_with_passphrase env buffer (fst (read_password env (stdin_fd env))) of
         Inl e \<Rightarrow> t' = [] \<and>
           r = Some (WithMessage e (''parse private key with passphrase failed: '' @ privateKey))
       | Inr key \<Rightarrow> (t', r) = executeRemote env host port user (PublicKeys key) callback)"
    by blast
  have 2: "EvParsePrivateKeyWithPassphrase buffer bytePassword \<in> set t"
    by (simp add: t pw)
  have 3: "r = (case parse_private_key_with_passphrase env buffer bytePassword of
                 Inl e \<Rightarrow> Some (WithMessage e
                            (''parse private key with passphrase failed: '' @ privateKey))
               | Inr key \<Rightarrow> snd (executeRemote env host port user (PublicKeys key) callback))"
    using c unfolding pw
    by (cases "parse_private_key_with_passphrase env buffer bytePassword")
       (auto dest: arg_cong [where f = snd])
  from 1 2 3 run show ?thesis by simp
qed

theorem read_error_discarded_witness:
  "read_password no_terminal_env (stdin_fd no_terminal_env)
       = ([], Some (ErrorString ''inappropriate ioctl for device''))
   \<and> EvParsePrivateKeyWithPassphrase ''encE'' []
       \<in> set (fst (ExecuteRemoteWithPrivateKey no_terminal_env ''h'' 22 ''root'' ''id_ed'' demo_ok))
   \<and> snd (ExecuteRemoteWithPrivateKey no_terminal_env ''h'' 22 ''root'' ''id_ed'' demo_ok)
       = Some (WithMessage (ErrorString ''x509: decryption password incorrect'')
                 ''parse private key with passphrase failed: id_ed'')"
proof -
  let ?env = no_terminal_env
  let ?run = "ExecuteRemoteWithPrivateKey ?env ''h'' 22 ''root'' ''id_ed'' demo_ok"
  have rd: "read_file ?env (expandPath ?env ''id_ed'') = Inr ''encE''"
    by code_simp
  have enc: "parse_private_key ?env ''encE'' =
               Inl (ErrorString ''ssh: this private key is passphrase protected'')"
    by code_simp
  have msg: "Error (ErrorString ''ssh: this private key is passphrase protected'') = passphrase_protected"
    by (simp add: passphrase_protected_def)
  have nomatch: "fst (snd (privateKeyUsingSSHAgent ?env (''id_ed'' @ ''.pub''))) = None"
    by code_simp
  have rerr: "read_password ?env (stdin_fd ?env) = ([], Some (ErrorString ''inappropriate ioctl for device''))"
    by code_simp
  have run: "?run = (fst ?run, snd ?run)"
    by simp
  have pp: "parse_private_key_with_passphrase ?env ''encE'' []
              = Inl (ErrorString ''x509: decryption password incorrect'')"
    by code_simp
  from read_error_discarded [OF rd enc msg nomatch rerr run] rerr pp show ?thesis
    by simp
qed

end
